theory Spec2Isabelle
  imports Main "HOL-Library.Multiset"
begin

section \<open>Python values the module works with\<close>

text \<open>
  Exceptions are values. \<open>ValueError\<close>, \<open>NameError\<close>, \<open>TypeError\<close> and \<open>KeyError\<close> are the
  interpreter's own; \<open>UserError\<close> stands for whatever subclass of \<open>Exception\<close> the caller's
  function raises. All five are subclasses of \<open>Exception\<close>, so \<open>except Exception\<close> catches
  each of them.
\<close>

datatype exn =
    ValueError string
  | NameError string
  | TypeError string
  | KeyError
  | UserError string

text \<open>
  The input of \<open>run_parallel\<close> is any iterable. What the code asks of it is \<open>len\<close> (line 97)
  and one iteration (line 104). \<open>Sized xs\<close> is a collection with \<open>__len__\<close> (list, tuple,
  range); \<open>Unsized xs\<close> is an iterator or generator that yields \<open>xs\<close> and has no length.
\<close>

datatype 'a iterable = Sized "'a list" | Unsized "'a list"

definition py_len :: "'a iterable \<Rightarrow> exn + int" where
  "py_len it = (case it of
      Sized xs \<Rightarrow> Inr (int (length xs))
    | Unsized xs \<Rightarrow> Inl (TypeError ''object has no len()''))"

definition py_iter :: "'a iterable \<Rightarrow> 'a list" where
  "py_iter it = (case it of Sized xs \<Rightarrow> xs | Unsized xs \<Rightarrow> xs)"

text \<open>
  \<open>str.lower\<close>. A string is its UTF-8 bytes. Only the ASCII letters are mapped here: the
  lower-case form of a code point beyond ASCII never consists of letters of
  \<open>thread\<close> or \<open>process\<close> alone, so the test of line 88 gives the same verdict.
\<close>

definition lower_char :: "char \<Rightarrow> char" where
  "lower_char c =
     (let k = (of_char c :: nat)
      in if 65 \<le> k \<and> k \<le> 90 then char_of (k + 32) else c)"

definition lower :: "string \<Rightarrow> string" where
  "lower s = map lower_char s"

section \<open>The host and the libraries the module calls\<close>

datatype executor_class = ThreadPoolExecutor | ProcessPoolExecutor

datatype tqdm_class = notebook_tqdm | standard_tqdm

text \<open>
  What the call reads from its host: whether an IPython shell is running
  (\<open>get_ipython() is not None\<close>), and what \<open>os.cpu_count()\<close> returns, the number of CPUs
  or \<open>None\<close> when it cannot be determined.
\<close>

record host =
  ipython :: bool
  cpu_count :: "nat option"

text \<open>
  The number of workers an executor class of \<open>concurrent.futures\<close> takes when it is given
  \<open>max_workers=None\<close>, as the standard library documents and computes it (Python 3.8 and
  later): \<open>min(32, (os.cpu_count() or 1) + 4)\<close> for \<open>ThreadPoolExecutor\<close>, and
  \<open>os.cpu_count() or 1\<close> for \<open>ProcessPoolExecutor\<close>.
\<close>

definition cpus :: "host \<Rightarrow> nat" where
  "cpus h = (case cpu_count h of None \<Rightarrow> 1 | Some c \<Rightarrow> if c = 0 then 1 else c)"

definition default_workers :: "host \<Rightarrow> executor_class \<Rightarrow> nat" where
  "default_workers h cls =
     (case cls of
        ThreadPoolExecutor \<Rightarrow> min 32 (cpus h + 4)
      | ProcessPoolExecutor \<Rightarrow> cpus h)"

text \<open>
  The constructor of either executor class, as \<open>concurrent.futures\<close> documents it:
  \<open>max_workers=None\<close> takes the default, a value \<open>\<le> 0\<close> raises \<open>ValueError\<close>.
  The result is the class and the number of workers of the new pool.
\<close>

definition new_pool ::
  "host \<Rightarrow> executor_class \<Rightarrow> int option \<Rightarrow> exn + (executor_class \<times> nat)" where
  "new_pool h cls max_workers =
     (case max_workers of
        None \<Rightarrow> Inr (cls, default_workers h cls)
      | Some k \<Rightarrow>
          if k \<le> 0 then Inl (ValueError ''max_workers must be greater than 0'')
          else Inr (cls, nat k))"

text \<open>
  A future is the task's position in submission order and the outcome of the call
  \<open>func(item)\<close> that the pool runs for it: \<open>Inl e\<close> when the call raised \<open>e\<close>.
\<close>

type_synonym 'a future = "nat \<times> (exn + 'a)"

definition future_result :: "'a future \<Rightarrow> exn + 'a" where
  "future_result fut = snd fut"

definition submit_all :: "('a \<Rightarrow> exn + 'a) \<Rightarrow> 'a list \<Rightarrow> 'a future list" where
  "submit_all func items = map (\<lambda>(i, item). (i, func item)) (enumerate 0 items)"

text \<open>
  \<open>as_completed\<close> yields every future once, in the order in which the tasks finish. That
  order is the scheduler's: it is the parameter \<open>sched\<close>, a list of choices, each naming
  (modulo the number of futures still pending) the pending future that finishes next.
  When the choices run out the remaining futures finish in submission order.
\<close>

fun as_completed :: "nat list \<Rightarrow> 'b list \<Rightarrow> 'b list" where
  "as_completed [] pending = pending"
| "as_completed (c # cs) [] = []"
| "as_completed (c # cs) (f # fs) =
     (let i = c mod length (f # fs)
      in (f # fs) ! i # as_completed cs (take i (f # fs) @ drop (Suc i) (f # fs)))"

text \<open>
  A tqdm object: the class chosen for the host, the sequence it wraps, its display
  settings, and the counter \<open>n\<close> that the display shows.
\<close>

record 'b tqdm =
  bar_class :: tqdm_class
  bar_source :: "'b list"
  bar_desc :: "string option"
  bar_colour :: "string option"
  bar_total :: "int option"
  bar_n :: nat

text \<open>
  The constructor wraps an iterable. When no total is given it asks the iterable for its
  length and takes that as the total, and leaves the total unknown when \<open>len\<close> raises.
  \<open>bar_source\<close> holds the elements that iterating the wrapped iterable yields.
\<close>

definition tqdm_obj ::
  "tqdm_class \<Rightarrow> 'b iterable \<Rightarrow> string option \<Rightarrow> string option \<Rightarrow> int option \<Rightarrow> 'b tqdm" where
  "tqdm_obj cls it desc colour tot =
     \<lparr>bar_class = cls, bar_source = py_iter it, bar_desc = desc, bar_colour = colour,
      bar_total = (case tot of
                     Some t \<Rightarrow> Some t
                   | None \<Rightarrow> (case py_len it of Inr k \<Rightarrow> Some k | Inl e \<Rightarrow> None)),
      bar_n = 0\<rparr>"

text \<open>
  Iterating a tqdm object (\<open>for obj in iterable: yield obj; n += 1\<close>): each element is
  handed to the loop body, and the counter advances by one when the body has finished
  and the loop asks for the next element. A body that raises ends the iteration with the
  counter as it was. The body works on a state \<open>'s\<close> and returns the exception it raised,
  if any.
\<close>

fun tqdm_iter ::
  "('b \<Rightarrow> 's \<Rightarrow> exn option \<times> 's) \<Rightarrow> 'b list \<Rightarrow> 'b tqdm \<Rightarrow> 's \<Rightarrow> exn option \<times> 's \<times> 'b tqdm" where
  "tqdm_iter body [] bar s = (None, s, bar\<lparr>bar_source := []\<rparr>)"
| "tqdm_iter body (x # xs) bar s =
     (case body x s of
        (Some e, s') \<Rightarrow> (Some e, s', bar\<lparr>bar_source := xs\<rparr>)
      | (None, s') \<Rightarrow> tqdm_iter body xs (bar\<lparr>bar_n := bar_n bar + 1\<rparr>) s')"

definition for_in_tqdm ::
  "('b \<Rightarrow> 's \<Rightarrow> exn option \<times> 's) \<Rightarrow> 'b tqdm \<Rightarrow> 's \<Rightarrow> exn option \<times> 's \<times> 'b tqdm" where
  "for_in_tqdm body bar s = tqdm_iter body (bar_source bar) bar s"

section \<open>The module\<close>

definition is_run_from_ipython :: "host \<Rightarrow> bool" where
  "is_run_from_ipython h = ipython h"

definition get_corresponding_tqdm :: "host \<Rightarrow> tqdm_class" where
  "get_corresponding_tqdm h =
     (if is_run_from_ipython h then notebook_tqdm else standard_tqdm)"

text \<open>\<open>setup_progress_monitor\<close> of \<open>src/progress_bar/main.py\<close>.\<close>

definition setup_progress_monitor ::
  "host \<Rightarrow> 'b iterable \<Rightarrow> string option \<Rightarrow> string option \<Rightarrow> int option \<Rightarrow> 'b tqdm" where
  "setup_progress_monitor h it desc colour tot =
     (let tqdm_cls = get_corresponding_tqdm h
      in tqdm_obj tqdm_cls it desc colour tot)"

text \<open>\<open>progress_bar\<close> of \<open>src/src/progress_bar/main.py\<close>: the same body under another name.\<close>

definition progress_bar ::
  "host \<Rightarrow> 'b iterable \<Rightarrow> string option \<Rightarrow> string option \<Rightarrow> int option \<Rightarrow> 'b tqdm" where
  "progress_bar h it desc colour tot =
     (let tqdm_cls = get_corresponding_tqdm h
      in tqdm_obj tqdm_cls it desc colour tot)"

text \<open>
  What one call of \<open>run_parallel\<close> does besides returning: the pool it creates and whether
  the \<open>with\<close> block has shut it down, how often it iterates its input, how many tasks it
  submits, the progress monitor it creates (with its counter), and the records it sends
  to \<open>logger.error\<close>, each kept as the item and the exception of the message
  \<open>Item {item} failed: {e}\<close>.
\<close>

record 'a effects =
  pool :: "(executor_class \<times> nat) option"
  pool_shutdown :: bool
  iterations :: nat
  submitted :: nat
  monitor :: "'a future tqdm option"
  error_log :: "('a \<times> exn) list"

definition no_effects :: "'a effects" where
  "no_effects =
     \<lparr>pool = None, pool_shutdown = False, iterations = 0, submitted = 0,
      monitor = None, error_log = []\<rparr>"

text \<open>
  One pass over the input, the \<open>for item in iterable\<close> of line 104. It is the only way the
  call gets at the items. A pass yields the items, counts as one iteration, and leaves
  the iterable behind: a collection as it was, an iterator or generator exhausted.
\<close>

definition walk :: "'a iterable \<Rightarrow> 'a effects \<Rightarrow> 'a list \<times> 'a iterable \<times> 'a effects" where
  "walk it eff =
     (py_iter it,
      (case it of Sized xs \<Rightarrow> Sized xs | Unsized xs \<Rightarrow> Unsized []),
      eff\<lparr>iterations := iterations eff + 1\<rparr>)"

text \<open>
  Line 109 reads the name \<open>future_to_item\<close>. The function never assigns it, the module
  binds no global of that name (its globals are the imports, \<open>T\<close>, \<open>PathType\<close>, \<open>logger\<close>
  and the five functions), and it is no builtin: the name has no binding.
\<close>

definition future_to_item :: "('a future \<Rightarrow> 'a option) option" where
  "future_to_item = None"

text \<open>
  The body of the loop, lines 109 to 113, on the local \<open>results\<close> and the log. The lookup
  of line 109 stands before the \<open>try\<close>, so what it raises is not caught.
\<close>

definition loop_body ::
  "'a future \<Rightarrow> 'a list \<times> ('a \<times> exn) list \<Rightarrow> exn option \<times> 'a list \<times> ('a \<times> exn) list" where
  "loop_body future s =
     (case s of (results, lg) \<Rightarrow>
        (case future_to_item of
           None \<Rightarrow> (Some (NameError ''future_to_item''), results, lg)
         | Some d \<Rightarrow>
             (case d future of
                None \<Rightarrow> (Some KeyError, results, lg)
              | Some item \<Rightarrow>
                  (case future_result future of
                     Inr v \<Rightarrow> (None, results @ [v], lg)
                   | Inl e \<Rightarrow> (None, results, lg @ [(item, e)])))))"

definition executor_message :: string where
  "executor_message =
     ''executor must be '' @ [CHR 0x27] @ ''thread'' @ [CHR 0x27] @ '' or ''
       @ [CHR 0x27] @ ''process'' @ [CHR 0x27]"

text \<open>
  \<open>run_parallel\<close>, lines 87 to 114. It returns the list of results, or the exception that
  leaves the call, together with what the call did. The effects start empty and each step
  adds its own: the pool when the constructor returns, the pass over the input, the
  submissions, the monitor and the log of the loop, and the shutdown when the \<open>with\<close>
  block is left. \<open>as_completed\<close> is a generator, so the monitor wraps an iterable without
  a length.
\<close>

definition run_parallel ::
  "host \<Rightarrow> nat list \<Rightarrow> ('a \<Rightarrow> exn + 'a) \<Rightarrow> 'a iterable \<Rightarrow> string \<Rightarrow> int option
     \<Rightarrow> string option \<Rightarrow> string option \<Rightarrow> (exn + 'a list) \<times> 'a effects" where
  "run_parallel h sched func iterable executor max_workers desc colour =
     (let exec_type = lower executor
      in if exec_type \<notin> set [''thread'', ''process'']
         then (Inl (ValueError executor_message), no_effects)
         else
           let ExecPool = (if exec_type = ''thread'' then ThreadPoolExecutor
                           else ProcessPoolExecutor);
               tot = (case py_len iterable of Inr k \<Rightarrow> Some k | Inl e \<Rightarrow> None)
           in (case new_pool h ExecPool max_workers of
                 Inl e \<Rightarrow> (Inl e, no_effects)
               | Inr p \<Rightarrow>
                   (case walk iterable (no_effects\<lparr>pool := Some p\<rparr>) of
                      (items, iterable', eff) \<Rightarrow>
                        let futures = submit_all func items;
                            bar = setup_progress_monitor h
                                    (Unsized (as_completed sched futures)) desc colour tot
                        in (case for_in_tqdm loop_body bar ([], []) of
                              (raised, (results, lg), bar') \<Rightarrow>
                                ((case raised of Some e \<Rightarrow> Inl e | None \<Rightarrow> Inr results),
                                 eff\<lparr>submitted := length futures, monitor := Some bar',
                                     error_log := lg, pool_shutdown := True\<rparr>)))))"

text \<open>
  The configurations that \<open>run_parallel\<close> lets through: the test of line 88 passes, and the
  executor's constructor takes \<open>max_workers\<close>.
\<close>

definition accepted :: "string \<Rightarrow> int option \<Rightarrow> bool" where
  "accepted executor max_workers =
     (lower executor \<in> set [''thread'', ''process'']
      \<and> (case max_workers of None \<Rightarrow> True | Some k \<Rightarrow> 0 < k))"

definition selected :: "string \<Rightarrow> executor_class" where
  "selected executor =
     (if lower executor = ''thread'' then ThreadPoolExecutor else ProcessPoolExecutor)"

text \<open>
  The spec's \<open>InvalidConfiguration\<close> is the code's \<open>ValueError\<close> (line 89; the executors'
  constructors raise the same class).
\<close>

definition invalid_configuration :: "exn + 'r \<Rightarrow> bool" where
  "invalid_configuration r = (case r of Inl (ValueError m) \<Rightarrow> True | _ \<Rightarrow> False)"

section \<open>Inputs used in the examples\<close>

definition a_host :: host where
  "a_host = \<lparr>ipython = False, cpu_count = Some 8\<rparr>"

definition identity :: "int \<Rightarrow> exn + int" where
  "identity x = Inr x"

definition raise_on_negative :: "int \<Rightarrow> exn + int" where
  "raise_on_negative x = (if x < 0 then Inl (UserError ''negative input'') else Inr x)"

section \<open>Facts about the libraries' model\<close>

lemma as_completed_mset: "mset (as_completed sched fs) = mset fs"
proof (induction sched fs rule: as_completed.induct)
  case (3 c cs f fs)
  let ?l = "f # fs"
  let ?i = "c mod length ?l"
  have i: "?i < length ?l" by simp
  have "mset ?l = mset (take ?i ?l @ ?l ! ?i # drop (Suc ?i) ?l)"
    using id_take_nth_drop [OF i] by simp
  then have "mset ?l = add_mset (?l ! ?i) (mset (take ?i ?l @ drop (Suc ?i) ?l))"
    by simp
  with 3 show ?case by (simp add: Let_def)
qed simp_all

lemma as_completed_length: "length (as_completed sched fs) = length fs"
  using as_completed_mset [of sched fs] by (metis size_mset)

lemma as_completed_Nil: "as_completed sched [] = []"
  by (cases sched) simp_all

section \<open>The loop of \<open>run_parallel\<close>\<close>

lemma for_in_tqdm_loop_body:
  "for_in_tqdm loop_body bar s =
     (case bar_source bar of
        [] \<Rightarrow> (None, s, bar\<lparr>bar_source := []\<rparr>)
      | x # xs \<Rightarrow> (Some (NameError ''future_to_item''), s, bar\<lparr>bar_source := xs\<rparr>))"
  by (cases "bar_source bar"; cases s)
     (simp_all add: for_in_tqdm_def loop_body_def future_to_item_def)

lemma py_iter_Unsized: "py_iter (Unsized xs) = xs"
  by (simp add: py_iter_def)

lemma py_len_Unsized: "py_len (Unsized xs) = Inl (TypeError ''object has no len()'')"
  by (simp add: py_len_def)

lemma progress_bar_total_of_sequence:
  "bar_total (progress_bar h (Sized xs) desc colour None) = Some (int (length xs))"
  by (simp add: progress_bar_def tqdm_obj_def py_len_def)

lemma submit_all_length: "length (submit_all func items) = length items"
  by (simp add: submit_all_def)

lemma run_parallel_accepted:
  assumes "accepted executor max_workers"
  shows "run_parallel h sched func iterable executor max_workers desc colour =
     (let p = (case max_workers of
                 None \<Rightarrow> (selected executor, default_workers h (selected executor))
               | Some k \<Rightarrow> (selected executor, nat k));
          futures = submit_all func (py_iter iterable);
          bar = setup_progress_monitor h (Unsized (as_completed sched futures)) desc colour
                  (case py_len iterable of Inr k \<Rightarrow> Some k | Inl e \<Rightarrow> None)
      in (case for_in_tqdm loop_body bar ([], []) of
            (raised, (results, lg), bar') \<Rightarrow>
              ((case raised of Some e \<Rightarrow> Inl e | None \<Rightarrow> Inr results),
               \<lparr>pool = Some p, pool_shutdown = True, iterations = 1,
                submitted = length futures, monitor = Some bar', error_log = lg\<rparr>)))"
  using assms
  by (cases max_workers)
     (auto simp add: run_parallel_def accepted_def selected_def new_pool_def Let_def
        walk_def no_effects_def)

lemma run_parallel_nonempty:
  assumes "accepted executor max_workers" and "py_iter iterable \<noteq> []"
  shows "fst (run_parallel h sched func iterable executor max_workers desc colour) =
           Inl (NameError ''future_to_item'')"
    and "error_log (snd (run_parallel h sched func iterable executor max_workers desc colour)) = []"
    and "map_option bar_n
           (monitor (snd (run_parallel h sched func iterable executor max_workers desc colour))) =
           Some 0"
    and "submitted (snd (run_parallel h sched func iterable executor max_workers desc colour)) =
           length (py_iter iterable)"
proof -
  let ?fs = "as_completed sched (submit_all func (py_iter iterable))"
  have "length ?fs = length (py_iter iterable)"
    by (simp add: as_completed_length submit_all_length)
  with assms(2) obtain x xs where fs: "?fs = x # xs"
    by (cases ?fs) auto
  note run = run_parallel_accepted [OF assms(1)]
  show "fst (run_parallel h sched func iterable executor max_workers desc colour) =
           Inl (NameError ''future_to_item'')"
    by (simp add: run Let_def for_in_tqdm_loop_body setup_progress_monitor_def tqdm_obj_def py_iter_Unsized py_len_Unsized fs)
  show "error_log (snd (run_parallel h sched func iterable executor max_workers desc colour)) = []"
    by (simp add: run Let_def for_in_tqdm_loop_body setup_progress_monitor_def tqdm_obj_def py_iter_Unsized py_len_Unsized fs)
  show "map_option bar_n
           (monitor (snd (run_parallel h sched func iterable executor max_workers desc colour))) =
           Some 0"
    by (simp add: run Let_def for_in_tqdm_loop_body setup_progress_monitor_def tqdm_obj_def py_iter_Unsized py_len_Unsized fs)
  show "submitted (snd (run_parallel h sched func iterable executor max_workers desc colour)) =
           length (py_iter iterable)"
    by (simp add: run Let_def for_in_tqdm_loop_body setup_progress_monitor_def tqdm_obj_def py_iter_Unsized py_len_Unsized fs
        submit_all_length)
qed

lemma lower_thread: "lower ''thread'' = ''thread''"
  by (simp add: lower_def lower_char_def)

lemma lower_process: "lower ''process'' = ''process''"
  by (simp add: lower_def lower_char_def)

lemma accepted_thread: "accepted ''thread'' None"
  by (simp add: accepted_def lower_thread)

lemma run_parallel_empty:
  assumes "accepted executor max_workers" and "py_iter iterable = []"
  shows "fst (run_parallel h sched func iterable executor max_workers desc colour) = Inr []"
    and "error_log (snd (run_parallel h sched func iterable executor max_workers desc colour)) = []"
    and "map_option bar_n
           (monitor (snd (run_parallel h sched func iterable executor max_workers desc colour))) =
           Some 0"
    and "submitted (snd (run_parallel h sched func iterable executor max_workers desc colour)) = 0"
  using assms(2)
  by (simp_all add: run_parallel_accepted [OF assms(1)] Let_def for_in_tqdm_loop_body
      setup_progress_monitor_def tqdm_obj_def py_iter_Unsized py_len_Unsized submit_all_def as_completed_Nil)


lemma run_parallel_pool:
  assumes "accepted executor max_workers"
  shows "pool (snd (run_parallel h sched func iterable executor max_workers desc colour)) =
         Some (selected executor,
               case max_workers of None \<Rightarrow> default_workers h (selected executor)
                                 | Some k \<Rightarrow> nat k)"
    and "\<not> invalid_configuration
             (fst (run_parallel h sched func iterable executor max_workers desc colour))"
  by (simp_all add: run_parallel_accepted [OF assms] Let_def for_in_tqdm_loop_body
      invalid_configuration_def split: list.split option.split)



section \<open>The claims\<close>

text \<open>
  C1. The claim: for an input of \<open>n\<close> items and a function that succeeds on all of them,
  \<open>run_parallel\<close> returns \<open>n\<close> results. The code at \<open>identity\<close> over \<open>[1, 2, 3, 4, 5]\<close>:
  the first completed future reaches line 109, the unbound name raises \<open>NameError\<close>
  outside the \<open>try\<close>, and the call ends with that exception instead of five results.
\<close>

theorem all_succeed_raises_NameError:
  "fst (run_parallel a_host [] identity (Sized [1, 2, 3, 4, 5]) ''thread'' None None None) =
     Inl (NameError ''future_to_item'')"
  by (rule run_parallel_nonempty(1)) (simp_all add: accepted_thread py_iter_def)

text \<open>
  C2. The claim: with \<open>k\<close> failing items among \<open>n\<close>, the call returns \<open>n - k\<close> results and
  logs \<open>k\<close> failures. The code over \<open>[1, 2, -1, 4, -1]\<close> with a function that raises on a
  negative item: the call ends with \<open>NameError\<close> and the log is empty, instead of three
  results and two log records.
\<close>

theorem some_fail_raises_NameError:
  "fst (run_parallel a_host [] raise_on_negative (Sized [1, 2, - 1, 4, - 1])
          ''thread'' None None None) = Inl (NameError ''future_to_item'')
   \<and> error_log (snd (run_parallel a_host [] raise_on_negative (Sized [1, 2, - 1, 4, - 1])
          ''thread'' None None None)) = []"
  by (rule conjI, rule run_parallel_nonempty(1), simp add: accepted_thread,
      simp add: py_iter_def, rule run_parallel_nonempty(2), simp add: accepted_thread,
      simp add: py_iter_def)

text \<open>
  C3. The claim: the progress monitor advances once per completed task, \<open>n\<close> times for \<open>n\<close>
  items. The code over \<open>[1, 2, 3]\<close>: three tasks are submitted and the monitor's counter
  is still 0 when the call ends, the body of the first iteration having raised.
\<close>

theorem monitor_never_advances:
  "submitted (snd (run_parallel a_host [] identity (Sized [1, 2, 3]) ''thread'' None None None)) = 3
   \<and> map_option bar_n
       (monitor (snd (run_parallel a_host [] identity (Sized [1, 2, 3]) ''thread'' None None None))) =
       Some 0"
proof
  have ne: "py_iter (Sized [1, 2, 3 :: int]) \<noteq> []" by (simp add: py_iter_def)
  show "submitted (snd (run_parallel a_host [] identity (Sized [1, 2, 3]) ''thread'' None None None)) = 3"
    using run_parallel_nonempty(4) [OF accepted_thread ne] by (simp add: py_iter_def)
  show "map_option bar_n
       (monitor (snd (run_parallel a_host [] identity (Sized [1, 2, 3]) ''thread'' None None None))) =
       Some 0"
    by (rule run_parallel_nonempty(3) [OF accepted_thread ne])
qed

text \<open>
  C4, as the code has it. A strategy tag whose lower-case form is neither \<open>thread\<close> nor
  \<open>process\<close> makes \<open>run_parallel\<close> raise \<open>ValueError\<close> (the spec's
  \<open>InvalidConfiguration\<close>) having done nothing: no pool is created, so no worker starts,
  the input is not iterated, no task is submitted, no progress monitor exists, so nothing
  advances, and nothing is logged.
\<close>

theorem unrecognised_tag_rejected:
  "lower executor \<notin> set [''thread'', ''process''] \<Longrightarrow>
   run_parallel h sched func iterable executor max_workers desc colour =
     (Inl (ValueError executor_message),
      \<lparr>pool = None, pool_shutdown = False, iterations = 0, submitted = 0,
       monitor = None, error_log = []\<rparr>)
   \<and> invalid_configuration
       (fst (run_parallel h sched func iterable executor max_workers desc colour))"
  by (simp add: run_parallel_def Let_def no_effects_def invalid_configuration_def)

theorem unrecognised_tag_rejected_witness:
  "lower ''fiber'' \<notin> set [''thread'', ''process'']
   \<and> run_parallel a_host [1] identity (Sized [1, 2]) ''fiber'' (Some 2) None None =
       (Inl (ValueError executor_message),
        \<lparr>pool = None, pool_shutdown = False, iterations = 0, submitted = 0,
         monitor = None, error_log = []\<rparr>)
   \<and> invalid_configuration
       (fst (run_parallel a_host [1] identity (Sized [1, 2]) ''fiber'' (Some 2) None None))"
proof -
  have t: "lower ''fiber'' \<notin> set [''thread'', ''process'']"
    by (simp add: lower_def lower_char_def)
  show ?thesis
    using t unrecognised_tag_rejected
            [OF t, of a_host "[1]" identity "Sized [1, 2]" "Some 2" None None]
    by (simp add: invalid_configuration_def)
qed

text \<open>
  C4, as the claim states it, fails: \<open>Thread\<close> is a tag other than the two values
  \<open>thread\<close> and \<open>process\<close>, and \<open>run_parallel\<close> does not reject it. Line 87 lower-cases
  the tag before the test of line 88, the call raises no \<open>ValueError\<close> and creates a
  \<open>ThreadPoolExecutor\<close>.
\<close>

theorem mixed_case_tag_not_rejected:
  "''Thread'' \<notin> set [''thread'', ''process'']
   \<and> \<not> invalid_configuration
         (fst (run_parallel a_host [] identity (Sized [1, 2]) ''Thread'' None None None))
   \<and> map_option fst
       (pool (snd (run_parallel a_host [] identity (Sized [1, 2]) ''Thread'' None None None))) =
     Some ThreadPoolExecutor"
proof -
  have t: "lower ''Thread'' = ''thread''"
    by code_simp
  then have acc: "accepted ''Thread'' None"
    by (simp add: accepted_def)
  show ?thesis
    using run_parallel_pool [OF acc, of a_host "[]" identity "Sized [1, 2]" None None] t
    by (simp add: selected_def)
qed

text \<open>
  C5. The claim, with the docstring of line 77 (\<open>Defaults to os.cpu_count() if None\<close>):
  with \<open>max_workers = None\<close> the pool has as many workers as the host has CPUs. The code
  on a host with 8 CPUs, with the default executor \<open>thread\<close>: line 102 hands \<open>None\<close> to
  \<open>ThreadPoolExecutor\<close>, whose own default is \<open>min(32, 8 + 4)\<close>, and the pool has 12
  workers, not 8.
\<close>

theorem default_pool_is_not_cpu_count:
  "cpu_count a_host = Some 8
   \<and> pool (snd (run_parallel a_host [] identity (Sized [1, 2]) ''thread'' None None None)) =
     Some (ThreadPoolExecutor, 12)"
proof -
  have "pool (snd (run_parallel a_host [] identity (Sized [1, 2]) ''thread'' None None None)) =
     Some (selected ''thread'', default_workers a_host (selected ''thread''))"
    using run_parallel_pool(1) [OF accepted_thread, of a_host "[]" identity "Sized [1, 2]" None None]
    by simp
  then show ?thesis
    by (simp add: selected_def lower_thread default_workers_def cpus_def a_host_def)
qed

text \<open>
  C6. The claim: the returned list holds the successful results in completion order.
  The code over \<open>[10, 20]\<close> when the second task finishes first: the completion order is
  the second future, then the first, and the call ends with \<open>NameError\<close> at the first of
  them instead of returning \<open>[20, 10]\<close>.
\<close>

theorem completion_order_raises_NameError:
  "as_completed [1] (submit_all identity (py_iter (Sized [10, 20]))) =
     [(1, Inr 20), (0, Inr 10)]
   \<and> fst (run_parallel a_host [1] identity (Sized [10, 20]) ''thread'' None None None) =
     Inl (NameError ''future_to_item'')"
proof
  show "as_completed [1] (submit_all identity (py_iter (Sized [10, 20]))) =
     [(1, Inr 20), (0, Inr 10)]"
    by (simp add: submit_all_def py_iter_def identity_def)
  show "fst (run_parallel a_host [1] identity (Sized [10, 20]) ''thread'' None None None) =
     Inl (NameError ''future_to_item'')"
    by (rule run_parallel_nonempty(1)) (simp_all add: accepted_thread py_iter_def)
qed



text \<open>
  C9. Matching of the strategy tag ignores case: a tag whose lower-case form is
  \<open>thread\<close> or \<open>process\<close> is not rejected (no \<open>ValueError\<close> leaves the call when
  \<open>max_workers\<close> is \<open>None\<close> or positive), and the pool created is a
  \<open>ThreadPoolExecutor\<close> for \<open>thread\<close> and a \<open>ProcessPoolExecutor\<close> for \<open>process\<close>.
\<close>

theorem tag_matching_ignores_case:
  "lower executor = ''thread'' \<or> lower executor = ''process'' \<Longrightarrow>
   (case max_workers of None \<Rightarrow> True | Some k \<Rightarrow> 0 < k) \<Longrightarrow>
   \<not> invalid_configuration
       (fst (run_parallel h sched func iterable executor max_workers desc colour))
   \<and> map_option fst
       (pool (snd (run_parallel h sched func iterable executor max_workers desc colour))) =
     Some (if lower executor = ''thread'' then ThreadPoolExecutor else ProcessPoolExecutor)"
proof -
  assume tag: "lower executor = ''thread'' \<or> lower executor = ''process''"
    and mw: "case max_workers of None \<Rightarrow> True | Some k \<Rightarrow> 0 < k"
  from tag mw have acc: "accepted executor max_workers"
    by (auto simp add: accepted_def)
  show ?thesis
    using run_parallel_pool [OF acc, of h sched func iterable desc colour]
    by (simp add: selected_def)
qed

theorem tag_matching_ignores_case_witness:
  "((lower ''Thread'' = ''thread'' \<or> lower ''Thread'' = ''process'')
      \<and> \<not> invalid_configuration
            (fst (run_parallel a_host [] identity (Sized [1, 2]) ''Thread'' None None None))
      \<and> map_option fst
          (pool (snd (run_parallel a_host [] identity (Sized [1, 2]) ''Thread'' None None None))) =
        Some ThreadPoolExecutor)
   \<and> ((lower ''PROCESS'' = ''thread'' \<or> lower ''PROCESS'' = ''process'')
      \<and> \<not> invalid_configuration
            (fst (run_parallel a_host [] identity (Sized [1, 2]) ''PROCESS'' (Some 4) None None))
      \<and> map_option fst
          (pool (snd (run_parallel a_host [] identity (Sized [1, 2]) ''PROCESS'' (Some 4) None None))) =
        Some ProcessPoolExecutor)"
proof -
  have t: "lower ''Thread'' = ''thread''"
    by code_simp
  have p: "lower ''PROCESS'' = ''process''"
    by code_simp
  have t': "lower ''Thread'' = ''thread'' \<or> lower ''Thread'' = ''process''"
    using t by simp
  have p': "lower ''PROCESS'' = ''thread'' \<or> lower ''PROCESS'' = ''process''"
    using p by simp
  have m1: "case (None :: int option) of None \<Rightarrow> True | Some k \<Rightarrow> 0 < k" by simp
  have m2: "case Some (4 :: int) of None \<Rightarrow> True | Some k \<Rightarrow> 0 < k" by simp
  show ?thesis
    using t p
      tag_matching_ignores_case [OF t' m1, of a_host "[]" identity "Sized [1, 2]" None None]
      tag_matching_ignores_case [OF p' m2, of a_host "[]" identity "Sized [1, 2]" None None]
    by simp
qed

text \<open>
  C10. On an empty input, under every accepted configuration and for every user
  function and completion schedule, \<open>run_parallel\<close> returns the empty list, the monitor's
  counter stays at 0, no task is submitted and nothing is logged.
\<close>

theorem empty_input_returns_empty:
  "accepted executor max_workers \<Longrightarrow> py_iter iterable = [] \<Longrightarrow>
   fst (run_parallel h sched func iterable executor max_workers desc colour) = Inr []
   \<and> map_option bar_n
       (monitor (snd (run_parallel h sched func iterable executor max_workers desc colour))) =
     Some 0
   \<and> error_log (snd (run_parallel h sched func iterable executor max_workers desc colour)) = []
   \<and> submitted (snd (run_parallel h sched func iterable executor max_workers desc colour)) = 0"
  by (simp add: run_parallel_empty)

theorem empty_input_returns_empty_witness:
  "accepted ''process'' (Some 2) \<and> py_iter (Unsized ([] :: int list)) = []
   \<and> fst (run_parallel a_host [3] raise_on_negative (Unsized []) ''process'' (Some 2) None None) =
       Inr []
   \<and> map_option bar_n
       (monitor (snd (run_parallel a_host [3] raise_on_negative (Unsized []) ''process''
                        (Some 2) None None))) = Some 0
   \<and> error_log (snd (run_parallel a_host [3] raise_on_negative (Unsized []) ''process''
                        (Some 2) None None)) = []
   \<and> submitted (snd (run_parallel a_host [3] raise_on_negative (Unsized []) ''process''
                        (Some 2) None None)) = 0"
proof -
  have a: "accepted ''process'' (Some 2)"
    by (simp add: accepted_def lower_process)
  have e: "py_iter (Unsized ([] :: int list)) = []"
    by (simp add: py_iter_def)
  show ?thesis
    using a e
      empty_input_returns_empty [OF a e, of a_host "[3]" raise_on_negative None None]
    by simp
qed

end
